theory Spec2Isabelle
  imports Main "HOL-Library.Word"
begin

unbundle bit_operations_syntax

section \<open>Python values used by btsnoop\_parser.py\<close>

text \<open>
  A \<open>bytes\<close> object is a list of 8-bit words; indexing it yields a Python int, here a
  natural number. Reads that Python checks (indexing, \<open>struct.unpack\<close>, datetime
  arithmetic) return a \<open>result\<close>, with the exception as the left summand.
\<close>

type_synonym byte = "8 word"
type_synonym bytes = "byte list"

datatype value_error = File_too_small | Invalid_magic bytes

datatype py_error = ValueError value_error | IndexError | StructError | OverflowError

type_synonym 'a result = "py_error + 'a"

definition byte_at :: "bytes \<Rightarrow> nat \<Rightarrow> nat result" where
  \<comment> \<open>\<open>bs[i]\<close> for a non-negative index\<close>
  "byte_at bs i = (if i < length bs then Inr (unat (bs ! i)) else Inl IndexError)"

definition slice :: "'a list \<Rightarrow> nat \<Rightarrow> nat \<Rightarrow> 'a list" where
  \<comment> \<open>\<open>xs[a:b]\<close> for non-negative bounds; a slice never raises\<close>
  "slice xs a b = take (b - a) (drop a xs)"

definition le_nat :: "bytes \<Rightarrow> nat" where
  "le_nat bs = foldr (\<lambda>b acc. unat b + 256 * acc) bs 0"

definition be_nat :: "bytes \<Rightarrow> nat" where
  "be_nat bs = foldl (\<lambda>acc b. 256 * acc + unat b) 0 bs"

definition unpack_le_H :: "bytes \<Rightarrow> nat result" where
  \<comment> \<open>\<open>struct.unpack('<H', bs)[0]\<close>\<close>
  "unpack_le_H bs = (if length bs = 2 then Inr (le_nat bs) else Inl StructError)"

definition unpack_be_II :: "bytes \<Rightarrow> (nat \<times> nat) result" where
  \<comment> \<open>\<open>struct.unpack('>II', bs)\<close>\<close>
  "unpack_be_II bs =
     (if length bs = 8 then Inr (be_nat (slice bs 0 4), be_nat (slice bs 4 8))
      else Inl StructError)"

definition unpack_be_IIIIQ :: "bytes \<Rightarrow> (nat \<times> nat \<times> nat \<times> nat \<times> nat) result" where
  \<comment> \<open>\<open>struct.unpack('>IIIIQ', bs)\<close>\<close>
  "unpack_be_IIIIQ bs =
     (if length bs = 24
      then Inr (be_nat (slice bs 0 4), be_nat (slice bs 4 8), be_nat (slice bs 8 12),
                be_nat (slice bs 12 16), be_nat (slice bs 16 24))
      else Inl StructError)"

subsection \<open>String formatting\<close>

definition hex_digit :: "nat \<Rightarrow> char" where
  "hex_digit d = ''0123456789ABCDEF'' ! d"

fun hex_upper :: "nat \<Rightarrow> string" where
  \<comment> \<open>\<open>format(n, 'X')\<close>\<close>
  "hex_upper n = (if n < 16 then [hex_digit n] else hex_upper (n div 16) @ [hex_digit (n mod 16)])"

fun str_nat :: "nat \<Rightarrow> string" where
  \<comment> \<open>\<open>str(n)\<close> for a non-negative int\<close>
  "str_nat n = (if n < 10 then [hex_digit n] else str_nat (n div 10) @ [hex_digit (n mod 10)])"

definition zero_pad :: "nat \<Rightarrow> string \<Rightarrow> string" where
  "zero_pad w s = replicate (w - length s) (CHR ''0'') @ s"

definition fmt_02X :: "nat \<Rightarrow> string" where
  \<comment> \<open>\<open>f'{n:02X}'\<close>\<close>
  "fmt_02X n = zero_pad 2 (hex_upper n)"

definition fmt_04X :: "nat \<Rightarrow> string" where
  \<comment> \<open>\<open>f'{n:04X}'\<close>\<close>
  "fmt_04X n = zero_pad 4 (hex_upper n)"

fun join :: "string \<Rightarrow> string list \<Rightarrow> string" where
  \<comment> \<open>\<open>sep.join(parts)\<close>\<close>
  "join sep [] = []"
| "join sep [p] = p"
| "join sep (p # q # ps) = p @ sep @ join sep (q # ps)"

definition bd_addr_str :: "bytes \<Rightarrow> string" where
  \<comment> \<open>\<open>':'.join(f'{b:02X}' for b in reversed(bs))\<close>\<close>
  "bd_addr_str bs = join '':'' (map (\<lambda>b. fmt_02X (unat b)) (rev bs))"

subsection \<open>Timestamps\<close>

text \<open>
  A \<open>datetime\<close> is held as its distance in microseconds from 0001-01-01 00:00:00, the
  resolution and the least value of Python's type. The greatest value is
  9999-12-31 23:59:59.999999; adding a \<open>timedelta\<close> that leads beyond it raises
  OverflowError. \<open>datetime.now()\<close> reads the wall clock, which the model takes as a
  parameter: \<open>clock k\<close> is the value of the \<open>k\<close>-th reading.
\<close>

datatype datetime = Datetime nat

type_synonym clock = "nat \<Rightarrow> datetime"

definition DATETIME_MAX_US :: nat where
  "DATETIME_MAX_US = 315537897599999999"

definition BTSNOOP_EPOCH :: datetime where
  "BTSNOOP_EPOCH = Datetime 0"

fun datetime_add_us :: "datetime \<Rightarrow> nat \<Rightarrow> datetime result" where
  \<comment> \<open>\<open>d + timedelta(microseconds=us)\<close>\<close>
  "datetime_add_us (Datetime d) us =
     (if d + us \<le> DATETIME_MAX_US then Inr (Datetime (d + us)) else Inl OverflowError)"

section \<open>Constants and tables\<close>

definition BTSNOOP_MAGIC :: bytes where
  "BTSNOOP_MAGIC = [0x62, 0x74, 0x73, 0x6E, 0x6F, 0x6F, 0x70, 0x00]"

definition BTSNOOP_VERSION :: nat where [simp]: "BTSNOOP_VERSION = 1"
definition DATALINK_HCI :: nat where [simp]: "DATALINK_HCI = 1002"

definition HCI_COMMAND :: nat where [simp]: "HCI_COMMAND = 0x01"
definition HCI_ACL_DATA :: nat where [simp]: "HCI_ACL_DATA = 0x02"
definition HCI_EVENT :: nat where [simp]: "HCI_EVENT = 0x04"

definition EVT_CONNECTION_COMPLETE :: nat where [simp]: "EVT_CONNECTION_COMPLETE = 0x03"
definition EVT_CONNECTION_REQUEST :: nat where [simp]: "EVT_CONNECTION_REQUEST = 0x04"
definition EVT_DISCONNECTION_COMPLETE :: nat where [simp]: "EVT_DISCONNECTION_COMPLETE = 0x05"
definition EVT_LE_META :: nat where [simp]: "EVT_LE_META = 0x3E"

definition LE_CONNECTION_COMPLETE :: nat where [simp]: "LE_CONNECTION_COMPLETE = 0x01"
definition LE_ADV_REPORT :: nat where [simp]: "LE_ADV_REPORT = 0x02"
definition LE_ENHANCED_CONNECTION_COMPLETE :: nat where [simp]: "LE_ENHANCED_CONNECTION_COMPLETE = 0x0A"

definition CMD_CREATE_CONNECTION :: nat where [simp]: "CMD_CREATE_CONNECTION = 0x0405"
definition CMD_DISCONNECT :: nat where [simp]: "CMD_DISCONNECT = 0x0406"
definition CMD_LE_CREATE_CONNECTION :: nat where [simp]: "CMD_LE_CREATE_CONNECTION = 0x200D"

definition ATT_READ_REQ :: nat where [simp]: "ATT_READ_REQ = 0x0A"
definition ATT_WRITE_REQ :: nat where [simp]: "ATT_WRITE_REQ = 0x12"
definition ATT_WRITE_CMD :: nat where [simp]: "ATT_WRITE_CMD = 0x52"
definition ATT_PREPARE_WRITE_REQ :: nat where [simp]: "ATT_PREPARE_WRITE_REQ = 0x16"

definition L2CAP_CID_ATT :: nat where [simp]: "L2CAP_CID_ATT = 0x0004"

definition DISCONNECT_REASONS :: "nat \<rightharpoonup> string" where
  "DISCONNECT_REASONS = map_of
     [(0x00, ''Success''),
      (0x05, ''Authentication Failure''),
      (0x06, ''PIN or Key Missing''),
      (0x07, ''Memory Capacity Exceeded''),
      (0x08, ''Connection Timeout''),
      (0x09, ''Connection Limit Exceeded''),
      (0x0C, ''Command Disallowed''),
      (0x13, ''Remote User Terminated Connection''),
      (0x14, ''Remote Device Terminated due to Low Resources''),
      (0x15, ''Remote Device Terminated due to Power Off''),
      (0x16, ''Connection Terminated by Local Host''),
      (0x1A, ''Unsupported Remote Feature''),
      (0x22, ''LMP Response Timeout''),
      (0x3E, ''Connection Failed to be Established'')]"

definition ADDR_TYPES :: "nat \<rightharpoonup> string" where
  "ADDR_TYPES = map_of
     [(0x00, ''Public''),
      (0x01, ''Random''),
      (0x02, ''Public Identity''),
      (0x03, ''Random Identity'')]"

definition ATT_OPCODES :: "nat \<rightharpoonup> string" where
  "ATT_OPCODES = map_of
     [(0x0A, ''Read Request''),
      (0x0B, ''Read Response''),
      (0x08, ''Read By Type Request''),
      (0x09, ''Read By Type Response''),
      (0x10, ''Read By Group Type Request''),
      (0x11, ''Read By Group Type Response''),
      (0x12, ''Write Request''),
      (0x13, ''Write Response''),
      (0x52, ''Write Command''),
      (0x16, ''Prepare Write Request''),
      (0x17, ''Prepare Write Response''),
      (0x18, ''Execute Write Request''),
      (0x19, ''Execute Write Response'')]"

definition dict_get :: "('k \<rightharpoonup> 'v) \<Rightarrow> 'k \<Rightarrow> 'v \<Rightarrow> 'v" where
  \<comment> \<open>\<open>d.get(k, default)\<close>\<close>
  "dict_get d k dflt = (case d k of None \<Rightarrow> dflt | Some v \<Rightarrow> v)"

section \<open>The data classes and the parser object\<close>

record BtsnoopPacket =
  pkt_timestamp :: datetime
  pkt_direction :: string
  packet_type :: nat
  pkt_data :: bytes

record ConnectionRequest =
  conn_timestamp :: datetime
  conn_direction :: string
  conn_bd_addr :: string
  conn_link_type :: string
  conn_event_type :: string

record DisconnectionEvent =
  disc_timestamp :: datetime
  disc_handle :: nat
  disc_reason :: nat
  disc_reason_str :: string

record AdvertisementPacket =
  adv_timestamp :: datetime
  adv_event_type :: nat
  adv_addr_type :: string
  adv_bd_addr :: string
  adv_rssi :: int
  adv_data :: bytes

record GattOperation =
  gatt_timestamp :: datetime
  gatt_direction :: string
  gatt_operation :: string
  gatt_handle :: "nat option"
  gatt_data :: bytes

record BtsnoopParser =
  filepath :: string
  packets :: "BtsnoopPacket list"
  connections :: "ConnectionRequest list"
  disconnections :: "DisconnectionEvent list"
  advertisements :: "AdvertisementPacket list"
  gatt_operations :: "GattOperation list"

definition init :: "string \<Rightarrow> BtsnoopParser" where
  \<comment> \<open>\<open>BtsnoopParser.__init__\<close>\<close>
  "init path =
     \<lparr>filepath = path, packets = [], connections = [], disconnections = [],
      advertisements = [], gatt_operations = []\<rparr>"

text \<open>
  A method of the parser returns the exception it raised, if any, and the parser object
  as the method left it.
\<close>

type_synonym outcome = "py_error option \<times> BtsnoopParser"

definition evaluating :: "'a result \<Rightarrow> BtsnoopParser \<Rightarrow> ('a \<Rightarrow> outcome) \<Rightarrow> outcome" where
  \<comment> \<open>evaluate an expression that may raise, then go on with its value\<close>
  "evaluating r self k = (case r of Inl e \<Rightarrow> (Some e, self) | Inr v \<Rightarrow> k v)"

section \<open>Decoding one packet\<close>

subsection \<open>\<open>_process_le_meta_event\<close>\<close>

text \<open>
  The loop \<open>for _ in range(num_reports)\<close> of the advertising report. One run of its body
  either leaves the loop (\<open>break\<close>) or goes on to the next value of the range with a new
  cursor and a parser that holds one more report; every read of the body comes before
  the \<open>append\<close>, so an exception leaves the parser as it was.
\<close>

datatype 'a flow = Break | Continue 'a

definition bind :: "'a result \<Rightarrow> ('a \<Rightarrow> 'b result) \<Rightarrow> 'b result" where
  "bind r k = (case r of Inl e \<Rightarrow> Inl e | Inr v \<Rightarrow> k v)"

definition adv_report_body ::
  "nat \<Rightarrow> BtsnoopPacket \<Rightarrow> bytes \<Rightarrow> BtsnoopParser \<Rightarrow> (nat \<times> BtsnoopParser) flow result" where
  "adv_report_body offset pkt params self =
     (if offset + 9 > length params then Inr Break
      else
        bind (byte_at params offset) (\<lambda>event_type.
        bind (byte_at params (offset + 1)) (\<lambda>addr_type.
        let bd_addr = bd_addr_str (slice params (offset + 2) (offset + 8)) in
        bind (byte_at params (offset + 8)) (\<lambda>data_len.
        let offset1 = offset + 9 in
        if offset1 + data_len > length params then Inr Break
        else
          let adv_bytes = slice params offset1 (offset1 + data_len);
              offset2 = offset1 + data_len
          in
          bind (if offset2 < length params then byte_at params offset2 else Inr 0) (\<lambda>rssi0.
          let rssi = (if rssi0 > 127 then int rssi0 - 256 else int rssi0);
              offset3 = offset2 + 1
          in
          Inr (Continue (offset3, self\<lparr>advertisements := advertisements self @
                 [\<lparr>adv_timestamp = pkt_timestamp pkt,
                   adv_event_type = event_type,
                   adv_addr_type = dict_get ADDR_TYPES addr_type
                     (''Unknown('' @ str_nat addr_type @ '')''),
                   adv_bd_addr = bd_addr,
                   adv_rssi = rssi,
                   adv_data = adv_bytes\<rparr>]\<rparr>)))))))"

text \<open>
  \<open>n\<close> is the number of values of the range not yet taken. Besides the outcome the loop
  returns how many times its body was entered.
\<close>

fun adv_report_loop ::
  "nat \<Rightarrow> nat \<Rightarrow> BtsnoopPacket \<Rightarrow> bytes \<Rightarrow> BtsnoopParser \<Rightarrow> nat \<times> outcome" where
  "adv_report_loop 0 offset pkt params self = (0, (None, self))"
| "adv_report_loop (Suc n) offset pkt params self =
     (case adv_report_body offset pkt params self of
        Inl e \<Rightarrow> (1, (Some e, self))
      | Inr Break \<Rightarrow> (1, (None, self))
      | Inr (Continue (offset', self')) \<Rightarrow>
          (let r = adv_report_loop n offset' pkt params self' in (Suc (fst r), snd r)))"

definition le_connection_event ::
  "string \<Rightarrow> string \<Rightarrow> BtsnoopPacket \<Rightarrow> bytes \<Rightarrow> BtsnoopParser \<Rightarrow> outcome" where
  \<comment> \<open>the body shared, up to two labels, by the branches for LE Connection Complete and
      LE Enhanced Connection Complete\<close>
  "le_connection_event kind label pkt params self =
     evaluating (byte_at params 1) self (\<lambda>status.
     evaluating (unpack_le_H (slice params 2 4)) self (\<lambda>h.
     let handle = h AND 0x0FFF in
     evaluating (byte_at params 4) self (\<lambda>p4.
     let role = (if p4 = 0 then ''Master'' else ''Slave'') in
     evaluating (byte_at params 5) self (\<lambda>p5.
     let addr_type = dict_get ADDR_TYPES p5 (''Unknown('' @ str_nat p5 @ '')'');
         bd_addr = bd_addr_str (slice params 6 12)
     in (None, self\<lparr>connections := connections self @
          [\<lparr>conn_timestamp = pkt_timestamp pkt,
            conn_direction = pkt_direction pkt,
            conn_bd_addr = bd_addr,
            conn_link_type = kind @ '' ('' @ role @ '', '' @ addr_type @ '')'',
            conn_event_type = label @ '' (status='' @ str_nat status @ '', handle=0x''
                              @ fmt_04X handle @ '')''\<rparr>]\<rparr>)))))"

definition process_le_meta_event :: "BtsnoopPacket \<Rightarrow> bytes \<Rightarrow> BtsnoopParser \<Rightarrow> outcome" where
  "process_le_meta_event pkt params self =
     (if length params < 1 then (None, self)
      else
        evaluating (byte_at params 0) self (\<lambda>subevent.
        if subevent = LE_CONNECTION_COMPLETE then
          (if length params \<ge> 19
           then le_connection_event ''LE'' ''le_connection_complete'' pkt params self
           else (None, self))
        else if subevent = LE_ENHANCED_CONNECTION_COMPLETE then
          (if length params \<ge> 31
           then le_connection_event ''LE Enhanced'' ''le_enhanced_connection_complete''
                  pkt params self
           else (None, self))
        else if subevent = LE_ADV_REPORT then
          (if length params < 2 then (None, self)
           else
             evaluating (byte_at params 1) self (\<lambda>num_reports.
             snd (adv_report_loop num_reports 2 pkt params self)))
        else (None, self)))"

subsection \<open>\<open>_process_hci_event\<close>\<close>

definition process_hci_event :: "BtsnoopPacket \<Rightarrow> BtsnoopParser \<Rightarrow> outcome" where
  "process_hci_event pkt self =
     (if length (pkt_data pkt) < 2 then (None, self)
      else
        evaluating (byte_at (pkt_data pkt) 0) self (\<lambda>event_code.
        evaluating (byte_at (pkt_data pkt) 1) self (\<lambda>param_len.
        let params = slice (pkt_data pkt) 2 (2 + param_len) in
        if event_code = EVT_CONNECTION_REQUEST then
          (if length params \<ge> 10 then
             let bd_addr = bd_addr_str (slice params 0 6) in
             evaluating (byte_at params 9) self (\<lambda>p9.
             let link_type = (if p9 = 0x00 then ''SCO'' else ''ACL'') in
             (None, self\<lparr>connections := connections self @
                [\<lparr>conn_timestamp = pkt_timestamp pkt,
                  conn_direction = pkt_direction pkt,
                  conn_bd_addr = bd_addr,
                  conn_link_type = link_type,
                  conn_event_type = ''request''\<rparr>]\<rparr>))
           else (None, self))
        else if event_code = EVT_CONNECTION_COMPLETE then
          (if length params \<ge> 11 then
             evaluating (byte_at params 0) self (\<lambda>status.
             let bd_addr = bd_addr_str (slice params 3 9) in
             evaluating (byte_at params 9) self (\<lambda>p9.
             let link_type = (if p9 = 0x00 then ''SCO'' else ''ACL'') in
             (None, self\<lparr>connections := connections self @
                [\<lparr>conn_timestamp = pkt_timestamp pkt,
                  conn_direction = pkt_direction pkt,
                  conn_bd_addr = bd_addr,
                  conn_link_type = link_type,
                  conn_event_type = ''complete (status='' @ str_nat status @ '')''\<rparr>]\<rparr>)))
           else (None, self))
        else if event_code = EVT_DISCONNECTION_COMPLETE then
          (if length params \<ge> 4 then
             evaluating (byte_at params 0) self (\<lambda>status.
             evaluating (unpack_le_H (slice params 1 3)) self (\<lambda>h.
             let handle = h AND 0x0FFF in
             evaluating (byte_at params 3) self (\<lambda>reason.
             let reason_str = dict_get DISCONNECT_REASONS reason
                                (''Unknown (0x'' @ fmt_02X reason @ '')'') in
             (None, self\<lparr>disconnections := disconnections self @
                [\<lparr>disc_timestamp = pkt_timestamp pkt,
                  disc_handle = handle,
                  disc_reason = reason,
                  disc_reason_str = reason_str\<rparr>]\<rparr>))))
           else (None, self))
        else if event_code = EVT_LE_META then process_le_meta_event pkt params self
        else (None, self))))"

subsection \<open>\<open>_process_hci_command\<close>\<close>

definition process_hci_command :: "BtsnoopPacket \<Rightarrow> BtsnoopParser \<Rightarrow> outcome" where
  "process_hci_command pkt self =
     (if length (pkt_data pkt) < 3 then (None, self)
      else
        evaluating (unpack_le_H (slice (pkt_data pkt) 0 2)) self (\<lambda>opcode.
        evaluating (byte_at (pkt_data pkt) 2) self (\<lambda>param_len.
        let params = slice (pkt_data pkt) 3 (3 + param_len) in
        if opcode = CMD_CREATE_CONNECTION then
          (if length params \<ge> 6 then
             let bd_addr = bd_addr_str (slice params 0 6) in
             (None, self\<lparr>connections := connections self @
                [\<lparr>conn_timestamp = pkt_timestamp pkt,
                  conn_direction = pkt_direction pkt,
                  conn_bd_addr = bd_addr,
                  conn_link_type = ''ACL'',
                  conn_event_type = ''create_connection_cmd''\<rparr>]\<rparr>)
           else (None, self))
        else if opcode = CMD_LE_CREATE_CONNECTION then
          (if length params \<ge> 8 then
             let bd_addr = bd_addr_str (slice params 2 8) in
             (None, self\<lparr>connections := connections self @
                [\<lparr>conn_timestamp = pkt_timestamp pkt,
                  conn_direction = pkt_direction pkt,
                  conn_bd_addr = bd_addr,
                  conn_link_type = ''LE'',
                  conn_event_type = ''le_create_connection_cmd''\<rparr>]\<rparr>)
           else (None, self))
        else if opcode = CMD_DISCONNECT then
          (if length params \<ge> 3 then
             evaluating (unpack_le_H (slice params 0 2)) self (\<lambda>h.
             let handle = h AND 0x0FFF in
             evaluating (byte_at params 2) self (\<lambda>reason.
             let reason_str = dict_get DISCONNECT_REASONS reason
                                (''Unknown (0x'' @ fmt_02X reason @ '')'') in
             (None, self\<lparr>disconnections := disconnections self @
                [\<lparr>disc_timestamp = pkt_timestamp pkt,
                  disc_handle = handle,
                  disc_reason = reason,
                  disc_reason_str = ''Disconnect Command: '' @ reason_str\<rparr>]\<rparr>)))
           else (None, self))
        else (None, self))))"

subsection \<open>\<open>_process_att\<close> and \<open>_process_acl_data\<close>\<close>

definition process_att :: "BtsnoopPacket \<Rightarrow> bytes \<Rightarrow> BtsnoopParser \<Rightarrow> outcome" where
  "process_att pkt att_data self =
     (if length att_data < 1 then (None, self)
      else
        evaluating (byte_at att_data 0) self (\<lambda>opcode.
        case ATT_OPCODES opcode of
          None \<Rightarrow> (None, self)
        | Some operation \<Rightarrow>
            evaluating
              (if opcode \<in> {ATT_READ_REQ, ATT_WRITE_REQ, ATT_WRITE_CMD, ATT_PREPARE_WRITE_REQ}
                  \<and> length att_data \<ge> 3
               then map_sum id Some (unpack_le_H (slice att_data 1 3))
               else Inr None) self (\<lambda>handle.
            (None, self\<lparr>gatt_operations := gatt_operations self @
               [\<lparr>gatt_timestamp = pkt_timestamp pkt,
                 gatt_direction = pkt_direction pkt,
                 gatt_operation = operation,
                 gatt_handle = handle,
                 gatt_data = drop 1 att_data\<rparr>]\<rparr>))))"

definition process_acl_data :: "BtsnoopPacket \<Rightarrow> BtsnoopParser \<Rightarrow> outcome" where
  "process_acl_data pkt self =
     (if length (pkt_data pkt) < 4 then (None, self)
      else
        evaluating (unpack_le_H (slice (pkt_data pkt) 2 4)) self (\<lambda>acl_len.
        let acl_data = slice (pkt_data pkt) 4 (4 + acl_len) in
        if length acl_data < 4 then (None, self)
        else
          evaluating (unpack_le_H (slice acl_data 0 2)) self (\<lambda>l2cap_len.
          evaluating (unpack_le_H (slice acl_data 2 4)) self (\<lambda>cid.
          let l2cap_data = slice acl_data 4 (4 + l2cap_len) in
          if cid = L2CAP_CID_ATT \<and> length l2cap_data > 0
          then process_att pkt l2cap_data self
          else (None, self)))))"

subsection \<open>\<open>_process_packet\<close>\<close>

definition process_packet :: "BtsnoopPacket \<Rightarrow> BtsnoopParser \<Rightarrow> outcome" where
  "process_packet pkt self =
     (if packet_type pkt = HCI_EVENT then process_hci_event pkt self
      else if packet_type pkt = HCI_COMMAND then process_hci_command pkt self
      else if packet_type pkt = HCI_ACL_DATA then process_acl_data pkt self
      else (None, self))"

section \<open>\<open>parse\<close>\<close>

text \<open>
  The file object is the list of the bytes not yet read: \<open>f.read(n)\<close> returns
  \<open>take n f\<close> and leaves \<open>drop n f\<close>. The loop \<open>while True\<close> consumes at least 24
  bytes in every round that goes on, which is its termination argument. \<open>k\<close> counts the
  readings of the wall clock made so far.
\<close>

function parse_records :: "clock \<Rightarrow> nat \<Rightarrow> bytes \<Rightarrow> BtsnoopParser \<Rightarrow> outcome" where
  "parse_records clk k f self =
     (let record_header = take 24 f; f1 = drop 24 f in
      if length record_header < 24 then (None, self)
      else
        case unpack_be_IIIIQ record_header of
          Inl e \<Rightarrow> (Some e, self)
        | Inr (orig_len, incl_len, flags, drops, ts) \<Rightarrow>
            let packet_data = take incl_len f1; f2 = drop incl_len f1 in
            if length packet_data < incl_len then (None, self)
            else
              let (timestamp, k') =
                    (case datetime_add_us BTSNOOP_EPOCH ts of
                       Inr t \<Rightarrow> (t, k)
                     | Inl e \<Rightarrow> (clk k, Suc k));
                  direction = (if flags AND 0x01 \<noteq> 0 then ''received'' else ''sent'')
              in
              if length packet_data > 0 then
                (case byte_at packet_data 0 of
                   Inl e \<Rightarrow> (Some e, self)
                 | Inr pkt_type \<Rightarrow>
                     let pkt = \<lparr>pkt_timestamp = timestamp, pkt_direction = direction,
                                packet_type = pkt_type, pkt_data = drop 1 packet_data\<rparr>;
                         self1 = self\<lparr>packets := packets self @ [pkt]\<rparr>
                     in
                     (case process_packet pkt self1 of
                        (Some e, self2) \<Rightarrow> (Some e, self2)
                      | (None, self2) \<Rightarrow> parse_records clk k' f2 self2))
              else parse_records clk k' f2 self)"
  by pat_completeness auto
termination
  by (relation "measure (\<lambda>(clk, k, f, self). length f)") auto

datatype warning = Unexpected_version nat | Unexpected_datalink nat

record run =
  raised :: "py_error option"
  printed :: "warning list"
  parser :: BtsnoopParser

definition parse :: "clock \<Rightarrow> bytes \<Rightarrow> BtsnoopParser \<Rightarrow> run" where
  \<comment> \<open>\<open>file\<close> is the content of the file that \<open>open(self.filepath, 'rb')\<close> gives\<close>
  "parse clk file self =
     (let header = take 16 file; f = drop 16 file in
      if length header < 16
      then \<lparr>raised = Some (ValueError File_too_small), printed = [], parser = self\<rparr>
      else
        let magic = slice header 0 8 in
        if magic \<noteq> BTSNOOP_MAGIC
        then \<lparr>raised = Some (ValueError (Invalid_magic magic)), printed = [], parser = self\<rparr>
        else
          case unpack_be_II (slice header 8 16) of
            Inl e \<Rightarrow> \<lparr>raised = Some e, printed = [], parser = self\<rparr>
          | Inr (version, datalink) \<Rightarrow>
              let out1 = (if version \<noteq> BTSNOOP_VERSION then [Unexpected_version version]
                          else []);
                  out2 = out1 @ (if datalink \<noteq> DATALINK_HCI
                                 then [Unexpected_datalink datalink] else []);
                  (err, self') = parse_records clk 0 f self
              in \<lparr>raised = err, printed = out2, parser = self'\<rparr>)"

declare hex_upper.simps [simp del] str_nat.simps [simp del] parse_records.simps [simp del]

section \<open>Reads that stay inside the buffer\<close>

lemma byte_at_in: "i < length bs \<Longrightarrow> byte_at bs i = Inr (unat (bs ! i))"
  by (simp add: byte_at_def)

lemma length_slice: "length (slice xs a b) = min (b - a) (length xs - a)"
  by (simp add: slice_def)

lemma unpack_le_H_slice:
  "a + 2 \<le> length bs \<Longrightarrow> unpack_le_H (slice bs a (a + 2)) = Inr (le_nat (slice bs a (a + 2)))"
  by (simp add: unpack_le_H_def length_slice)

lemma adv_report_body_ok: "adv_report_body offset pkt params self \<noteq> Inl e"
  by (simp add: adv_report_body_def bind_def byte_at_def Let_def)

lemma adv_report_loop_ok:
  "fst (snd (adv_report_loop n offset pkt params self)) = None
   \<and> fst (adv_report_loop n offset pkt params self) \<le> n"
proof (induction n arbitrary: offset self)
  case 0
  show ?case by simp
next
  case (Suc n)
  show ?case
  proof (cases "adv_report_body offset pkt params self")
    case (Inl e)
    then show ?thesis by (simp add: adv_report_body_ok)
  next
    case (Inr fl)
    then show ?thesis
      using Suc.IH by (cases fl) (auto simp: Let_def)
  qed
qed

lemma le_connection_event_ok:
  "12 \<le> length params \<Longrightarrow> fst (le_connection_event kind label pkt params self) = None"
  using unpack_le_H_slice[of 2 params]
  by (simp add: le_connection_event_def evaluating_def byte_at_in Let_def)

lemma process_le_meta_event_ok: "fst (process_le_meta_event pkt params self) = None"
  by (simp add: process_le_meta_event_def evaluating_def byte_at_in le_connection_event_ok
      adv_report_loop_ok)

section \<open>Formatting of bytes and handles\<close>

lemma fmt_02X_byte: "n < 256 \<Longrightarrow> fmt_02X n = [hex_digit (n div 16), hex_digit (n mod 16)]"
proof (cases "n < 16")
  case True
  then show ?thesis
    by (simp add: fmt_02X_def zero_pad_def hex_upper.simps[of n] hex_digit_def)
next
  case False
  assume "n < 256"
  then have "n div 16 < 16" by simp
  with False show ?thesis
    by (simp add: fmt_02X_def zero_pad_def hex_upper.simps[of n] hex_upper.simps[of "n div 16"])
qed

lemma unat_byte_less: "unat (b :: byte) < 256"
  using unsigned_less[of b, where ?'a = nat] by simp

lemma fmt_02X_unat:
  "fmt_02X (unat (b :: byte)) = [hex_digit (unat b div 16), hex_digit (unat b mod 16)]"
  by (rule fmt_02X_byte) (rule unat_byte_less)

lemma and_0FFF: "(x :: nat) AND 0x0FFF = x mod 4096"
proof -
  have "(0x0FFF :: nat) = mask 12" by (simp add: mask_eq_exp_minus_1)
  then have "x AND 0x0FFF = take_bit 12 x" by (simp add: take_bit_eq_mask)
  then show ?thesis by (simp add: take_bit_eq_mod)
qed

lemma le_nat_2: "le_nat [lo, hi] = unat lo + 256 * unat hi"
  by (simp add: le_nat_def)

section \<open>Events of single packets\<close>

lemma slice_2:
  assumes "a + 2 \<le> length xs" and "b = a + 2"
  shows "slice xs a b = [xs ! a, xs ! (a + 1)]"
proof -
  from assms have d1: "drop a xs = xs ! a # drop (Suc a) xs"
    by (simp add: Cons_nth_drop_Suc)
  from assms have d2: "drop (Suc a) xs = xs ! Suc a # drop (Suc (Suc a)) xs"
    by (simp add: Cons_nth_drop_Suc)
  from assms have "b - a = Suc (Suc 0)" by simp
  then show ?thesis by (simp add: slice_def d1 d2)
qed

lemma unpack_le_H_at:
  assumes "a + 2 \<le> length bs" and "b = a + 2"
  shows "unpack_le_H (slice bs a b) = Inr (unat (bs ! a) + 256 * unat (bs ! (a + 1)))"
  by (simp add: slice_2[OF assms] unpack_le_H_def le_nat_2)

lemma adv_report_body_break:
  "length params < offset + 9 \<or> length params < offset + 9 + unat (params ! (offset + 8))
   \<Longrightarrow> adv_report_body offset pkt params self = Inr Break"
  by (auto simp: adv_report_body_def bind_def byte_at_def Let_def)

lemma adv_report_body_continue:
  "offset + 9 + unat (params ! (offset + 8)) \<le> length params \<Longrightarrow>
   adv_report_body offset pkt params self =
     Inr (Continue (offset + 10 + unat (params ! (offset + 8)),
       self\<lparr>advertisements := advertisements self @
         [\<lparr>adv_timestamp = pkt_timestamp pkt,
           adv_event_type = unat (params ! offset),
           adv_addr_type = dict_get ADDR_TYPES (unat (params ! (offset + 1)))
             (''Unknown('' @ str_nat (unat (params ! (offset + 1))) @ '')''),
           adv_bd_addr = bd_addr_str (slice params (offset + 2) (offset + 8)),
           adv_rssi =
             (if offset + 9 + unat (params ! (offset + 8)) < length params
              then (if unat (params ! (offset + 9 + unat (params ! (offset + 8)))) > 127
                    then int (unat (params ! (offset + 9 + unat (params ! (offset + 8))))) - 256
                    else int (unat (params ! (offset + 9 + unat (params ! (offset + 8))))))
              else 0),
           adv_data = slice params (offset + 9) (offset + 9 + unat (params ! (offset + 8)))\<rparr>]\<rparr>))"
  by (simp add: adv_report_body_def bind_def byte_at_def Let_def)

lemma disconnection_complete_event:
  assumes "pkt_data pkt = ec # pl # rest" and "unat ec = 5"
    and "4 \<le> length (take (unat pl) rest)"
  shows "process_hci_event pkt self =
    (None, self\<lparr>disconnections := disconnections self @
       [\<lparr>disc_timestamp = pkt_timestamp pkt,
         disc_handle = (unat (take (unat pl) rest ! 1) + 256 * unat (take (unat pl) rest ! 2))
                       AND 0x0FFF,
         disc_reason = unat (take (unat pl) rest ! 3),
         disc_reason_str = dict_get DISCONNECT_REASONS (unat (take (unat pl) rest ! 3))
           (''Unknown (0x'' @ fmt_02X (unat (take (unat pl) rest ! 3)) @ '')'')\<rparr>]\<rparr>)"
proof -
  have sl: "slice (pkt_data pkt) 2 (Suc (Suc (unat pl))) = take (unat pl) rest"
    using assms(1) by (simp add: slice_def)
  have h: "unpack_le_H (slice (take (unat pl) rest) (Suc 0) 3) =
        Inr (unat (take (unat pl) rest ! 1) + 256 * unat (take (unat pl) rest ! 2))"
    using unpack_le_H_at[of 1 "take (unat pl) rest" 3] assms(3) by (simp add: numeral_2_eq_2)
  have b: "byte_at (take (unat pl) rest) 0 = Inr (unat (take (unat pl) rest ! 0))"
    "byte_at (take (unat pl) rest) 3 = Inr (unat (take (unat pl) rest ! 3))"
    using assms(3) by (auto simp: byte_at_def)
  have hd: "byte_at (pkt_data pkt) 0 = Inr 5" "byte_at (pkt_data pkt) (Suc 0) = Inr (unat pl)"
    using assms(1,2) by (simp_all add: byte_at_def)
  have len: "\<not> length (pkt_data pkt) < 2"
    using assms(1) by simp
  show ?thesis
    using assms(3)
    by (simp add: process_hci_event_def evaluating_def sl h b hd len Let_def
        del: length_take nth_take)
qed

lemma disconnect_command:
  assumes "pkt_data pkt = o1 # o2 # pl # rest" and "unat o1 + 256 * unat o2 = 0x0406"
    and "3 \<le> length (take (unat pl) rest)"
  shows "process_hci_command pkt self =
    (None, self\<lparr>disconnections := disconnections self @
       [\<lparr>disc_timestamp = pkt_timestamp pkt,
         disc_handle = (unat (take (unat pl) rest ! 0) + 256 * unat (take (unat pl) rest ! 1))
                       AND 0x0FFF,
         disc_reason = unat (take (unat pl) rest ! 2),
         disc_reason_str = ''Disconnect Command: '' @
           dict_get DISCONNECT_REASONS (unat (take (unat pl) rest ! 2))
           (''Unknown (0x'' @ fmt_02X (unat (take (unat pl) rest ! 2)) @ '')'')\<rparr>]\<rparr>)"
proof -
  have sl: "slice (pkt_data pkt) 3 (3 + unat pl) = take (unat pl) rest"
    using assms(1) by (simp add: slice_def)
  have op: "unpack_le_H (slice (pkt_data pkt) 0 2) = Inr 0x0406"
    using unpack_le_H_at[of 0 "pkt_data pkt" 2] assms(1,2) by simp
  have h: "unpack_le_H (slice (take (unat pl) rest) 0 2) =
        Inr (unat (take (unat pl) rest ! 0) + 256 * unat (take (unat pl) rest ! 1))"
    using unpack_le_H_at[of 0 "take (unat pl) rest" 2] assms(3) by simp
  have b: "byte_at (take (unat pl) rest) 2 = Inr (unat (take (unat pl) rest ! 2))"
    using assms(3) by (simp add: byte_at_def)
  have b2: "byte_at (pkt_data pkt) 2 = Inr (unat pl)"
    using assms(1) by (simp add: byte_at_def)
  have len: "\<not> length (pkt_data pkt) < 3"
    using assms(1) by simp
  show ?thesis
    using assms(3)
    by (simp add: process_hci_command_def evaluating_def sl op h b b2 len Let_def
        del: length_take nth_take)
qed


lemma adv_report_loop_two:
  "adv_report_loop 2 off pkt params self = adv_report_loop (Suc (Suc 0)) off pkt params self"
  by (simp only: numeral_2_eq_2)

lemma adv_report_body_cases:
  "adv_report_body offset pkt params self = Inr Break
   \<or> (\<exists>off' r. adv_report_body offset pkt params self =
         Inr (Continue (off', self\<lparr>advertisements := advertisements self @ [r]\<rparr>)))"
proof (cases "offset + 9 + unat (params ! (offset + 8)) \<le> length params")
  case True
  then show ?thesis
    using adv_report_body_continue[of offset params pkt self] by blast
next
  case False
  then have "adv_report_body offset pkt params self = Inr Break"
    by (intro adv_report_body_break) simp
  then show ?thesis by simp
qed

lemma adv_report_loop_count:
  "length (advertisements (snd (snd (adv_report_loop n off pkt params self))))
   \<le> length (advertisements self) + fst (adv_report_loop n off pkt params self)"
proof (induction n arbitrary: off self)
  case 0
  show ?case by simp
next
  case (Suc n)
  from adv_report_body_cases[of off pkt params self] show ?case
  proof
    assume "adv_report_body off pkt params self = Inr Break"
    then show ?thesis by simp
  next
    assume "\<exists>off' r. adv_report_body off pkt params self =
         Inr (Continue (off', self\<lparr>advertisements := advertisements self @ [r]\<rparr>))"
    then obtain off' r where b: "adv_report_body off pkt params self =
         Inr (Continue (off', self\<lparr>advertisements := advertisements self @ [r]\<rparr>))"
      by blast
    show ?thesis
      using Suc.IH[of off' "self\<lparr>advertisements := advertisements self @ [r]\<rparr>"]
      by (simp add: b Let_def)
  qed
qed

lemma adv_report_decoder_walk:
  "2 \<le> length params \<Longrightarrow> unat (params ! 0) = 2 \<Longrightarrow>
   process_le_meta_event pkt params self =
     snd (adv_report_loop (unat (params ! 1)) 2 pkt params self)"
  by (auto simp: process_le_meta_event_def evaluating_def byte_at_def)

text \<open>
  C1. Whatever the bytes of the parameter buffer, the report count and the data lengths
  it declares, the walk over the advertising reports raises no exception (an index past
  the end of the buffer would raise IndexError) and enters its body at most as many times
  as its range has values. The decoder of an advertising-report meta event runs this
  walk from offset 2 over a range of exactly the count byte \<open>params[1]\<close>: so it enters
  the body at most that many times, which is at most 255, and adds at most that many
  reports.
\<close>

theorem adv_report_walk_bounded:
  "fst (snd (adv_report_loop n offset pkt params self)) = None
   \<and> fst (adv_report_loop n offset pkt params self) \<le> n
   \<and> fst (process_le_meta_event pkt params self) = None
   \<and> (2 \<le> length params \<and> unat (params ! 0) = 2 \<longrightarrow>
        process_le_meta_event pkt params self =
          snd (adv_report_loop (unat (params ! 1)) 2 pkt params self)
        \<and> fst (adv_report_loop (unat (params ! 1)) 2 pkt params self) \<le> unat (params ! 1)
        \<and> unat (params ! 1) \<le> 255
        \<and> length (advertisements (snd (process_le_meta_event pkt params self)))
            \<le> length (advertisements self) + unat (params ! 1))"
proof (intro conjI impI)
  show "fst (snd (adv_report_loop n offset pkt params self)) = None"
    by (simp add: adv_report_loop_ok)
  show "fst (adv_report_loop n offset pkt params self) \<le> n"
    by (simp add: adv_report_loop_ok)
  show "fst (process_le_meta_event pkt params self) = None"
    by (rule process_le_meta_event_ok)
next
  assume h: "2 \<le> length params \<and> unat (params ! 0) = 2"
  then show eq: "process_le_meta_event pkt params self =
          snd (adv_report_loop (unat (params ! 1)) 2 pkt params self)"
    by (simp add: adv_report_decoder_walk)
  show le: "fst (adv_report_loop (unat (params ! 1)) 2 pkt params self) \<le> unat (params ! 1)"
    by (simp add: adv_report_loop_ok)
  show "unat (params ! 1) \<le> 255"
    using unat_byte_less[of "params ! 1"] by simp
  show "length (advertisements (snd (process_le_meta_event pkt params self)))
            \<le> length (advertisements self) + unat (params ! 1)"
    using adv_report_loop_count[of "unat (params ! 1)" 2 pkt params self] le
    by (simp add: eq)
qed

theorem adv_report_walk_bounded_witness:
  "process_le_meta_event
      \<lparr>pkt_timestamp = Datetime 0, pkt_direction = ''received'', packet_type = 4, pkt_data = []\<rparr>
      [0x02, 0x02, 0x00, 0x01, 1, 2, 3, 4, 5, 6, 0x00, 0xC5] (init ''log'')
    = snd (adv_report_loop 2 2
      \<lparr>pkt_timestamp = Datetime 0, pkt_direction = ''received'', packet_type = 4, pkt_data = []\<rparr>
      [0x02, 0x02, 0x00, 0x01, 1, 2, 3, 4, 5, 6, 0x00, 0xC5] (init ''log''))
   \<and> fst (adv_report_loop 2 2
      \<lparr>pkt_timestamp = Datetime 0, pkt_direction = ''received'', packet_type = 4, pkt_data = []\<rparr>
      [0x02, 0x02, 0x00, 0x01, 1, 2, 3, 4, 5, 6, 0x00, 0xC5] (init ''log'')) \<le> 2
   \<and> length (advertisements (snd (process_le_meta_event
      \<lparr>pkt_timestamp = Datetime 0, pkt_direction = ''received'', packet_type = 4, pkt_data = []\<rparr>
      [0x02, 0x02, 0x00, 0x01, 1, 2, 3, 4, 5, 6, 0x00, 0xC5] (init ''log''))))
       \<le> length (advertisements (init ''log'')) + 2"
  using adv_report_walk_bounded[of 2 2
      "\<lparr>pkt_timestamp = Datetime 0, pkt_direction = ''received'', packet_type = 4, pkt_data = []\<rparr>"
      "[0x02, 0x02, 0x00, 0x01, 1, 2, 3, 4, 5, 6, 0x00, 0xC5]" "init ''log''"]
  by auto

text \<open>
  C2. A report buffer that declares two reports and holds the first one whole (its
  9-byte prefix and its declared data) while the second one's prefix or declared data do
  not fit: the decoder raises nothing and leaves the parser with exactly one more
  advertisement, the one decoded from the fields of the first sub-record, everything
  else unchanged.
\<close>

theorem partial_report_list_kept:
  assumes "2 \<le> length params" and "params ! 0 = 0x02" and "params ! 1 = 0x02"
    and "11 + unat (params ! 10) \<le> length params"
    and "length params < 21 + unat (params ! 10)
         \<or> length params < 21 + unat (params ! 10) + unat (params ! (20 + unat (params ! 10)))"
  shows "process_le_meta_event pkt params self =
     (None, self\<lparr>advertisements := advertisements self @
        [\<lparr>adv_timestamp = pkt_timestamp pkt,
          adv_event_type = unat (params ! 2),
          adv_addr_type = dict_get ADDR_TYPES (unat (params ! 3))
            (''Unknown('' @ str_nat (unat (params ! 3)) @ '')''),
          adv_bd_addr = bd_addr_str (slice params 4 10),
          adv_rssi =
            (if 11 + unat (params ! 10) < length params
             then (if unat (params ! (11 + unat (params ! 10))) > 127
                   then int (unat (params ! (11 + unat (params ! 10)))) - 256
                   else int (unat (params ! (11 + unat (params ! 10)))))
             else 0),
          adv_data = slice params 11 (11 + unat (params ! 10))\<rparr>]\<rparr>)"
proof -
  define d1 where "d1 = unat (params ! 10)"
  define r where "r =
        \<lparr>adv_timestamp = pkt_timestamp pkt,
          adv_event_type = unat (params ! 2),
          adv_addr_type = dict_get ADDR_TYPES (unat (params ! 3))
            (''Unknown('' @ str_nat (unat (params ! 3)) @ '')''),
          adv_bd_addr = bd_addr_str (slice params 4 10),
          adv_rssi =
            (if 11 + unat (params ! 10) < length params
             then (if unat (params ! (11 + unat (params ! 10))) > 127
                   then int (unat (params ! (11 + unat (params ! 10)))) - 256
                   else int (unat (params ! (11 + unat (params ! 10)))))
             else 0),
          adv_data = slice params 11 (11 + unat (params ! 10))\<rparr>"
  define self1 where "self1 = self\<lparr>advertisements := advertisements self @ [r]\<rparr>"
  have c1: "adv_report_body 2 pkt params self = Inr (Continue (12 + d1, self1))"
    using adv_report_body_continue[of 2 params pkt self] assms(4)
    by (simp add: d1_def r_def self1_def)
  have b2: "adv_report_body (12 + d1) pkt params self1 = Inr Break"
    using adv_report_body_break[of params "12 + d1" pkt self1] assms(5)
    by (simp add: d1_def add.commute)
  have loop: "adv_report_loop 2 2 pkt params self = (2, (None, self1))"
    by (simp add: adv_report_loop_two c1 b2)
  have hd: "byte_at params 0 = Inr 2" "byte_at params (Suc 0) = Inr 2"
    using assms(1,2,3) by (auto simp: byte_at_def)
  have "process_le_meta_event pkt params self = (None, self1)"
    using assms(1) by (auto simp: process_le_meta_event_def evaluating_def hd loop)
  then show ?thesis by (simp add: self1_def r_def)
qed

theorem partial_report_list_kept_witness:
  "process_le_meta_event
     \<lparr>pkt_timestamp = Datetime 0, pkt_direction = ''received'', packet_type = 4,
      pkt_data = []\<rparr>
     [0x02, 0x02, 0x00, 0x01, 1, 2, 3, 4, 5, 6, 0x00, 0xC5, 0x00, 0x00, 0x01] (init ''log'')
   = (None, (init ''log'')\<lparr>advertisements := advertisements (init ''log'') @
        [\<lparr>adv_timestamp = Datetime 0, adv_event_type = 0, adv_addr_type = ''Random'',
          adv_bd_addr = ''06:05:04:03:02:01'', adv_rssi = - 59, adv_data = []\<rparr>]\<rparr>)"
  using partial_report_list_kept[of
      "[0x02, 0x02, 0x00, 0x01, 1, 2, 3, 4, 5, 6, 0x00, 0xC5, 0x00, 0x00, 0x01]"
      "\<lparr>pkt_timestamp = Datetime 0, pkt_direction = ''received'', packet_type = 4,
        pkt_data = []\<rparr>" "init ''log''"]
  by (simp add: dict_get_def ADDR_TYPES_def bd_addr_str_def fmt_02X_byte hex_digit_def
      slice_def)

text \<open>
  C6. Whenever the disconnection-complete branch or the disconnect-command branch emits
  its event, the stored handle is the little-endian 16-bit field masked with 0x0FFF,
  hence below 0x1000; the bytes 0x34 0x12 give the handle 0x0234.
\<close>

theorem disconnection_handle_masked:
  "(pkt_data pkt = ec # pl # rest \<and> unat ec = 5 \<and> 4 \<le> length (take (unat pl) rest) \<longrightarrow>
      (\<exists>e. process_hci_event pkt self =
              (None, self\<lparr>disconnections := disconnections self @ [e]\<rparr>)
         \<and> disc_handle e =
             (unat (take (unat pl) rest ! 1) + 256 * unat (take (unat pl) rest ! 2)) AND 0x0FFF
         \<and> disc_handle e < 0x1000))
   \<and> (pkt_data pkt = o1 # o2 # pl # rest \<and> unat o1 + 256 * unat o2 = 0x0406
        \<and> 3 \<le> length (take (unat pl) rest) \<longrightarrow>
      (\<exists>e. process_hci_command pkt self =
              (None, self\<lparr>disconnections := disconnections self @ [e]\<rparr>)
         \<and> disc_handle e =
             (unat (take (unat pl) rest ! 0) + 256 * unat (take (unat pl) rest ! 1)) AND 0x0FFF
         \<and> disc_handle e < 0x1000))
   \<and> (\<exists>e. process_hci_event
              \<lparr>pkt_timestamp = t, pkt_direction = d, packet_type = 4,
               pkt_data = [0x05, 0x04, 0x00, 0x34, 0x12, 0x13]\<rparr> self =
              (None, self\<lparr>disconnections := disconnections self @ [e]\<rparr>)
         \<and> disc_handle e = 0x0234)"
proof (intro conjI impI)
  assume "pkt_data pkt = ec # pl # rest \<and> unat ec = 5 \<and> 4 \<le> length (take (unat pl) rest)"
  then show "\<exists>e. process_hci_event pkt self =
              (None, self\<lparr>disconnections := disconnections self @ [e]\<rparr>)
         \<and> disc_handle e =
             (unat (take (unat pl) rest ! 1) + 256 * unat (take (unat pl) rest ! 2)) AND 0x0FFF
         \<and> disc_handle e < 0x1000"
    using disconnection_complete_event[of pkt ec pl rest self]
    by (auto simp: and_0FFF simp del: length_take nth_take)
next
  assume "pkt_data pkt = o1 # o2 # pl # rest \<and> unat o1 + 256 * unat o2 = 0x0406
        \<and> 3 \<le> length (take (unat pl) rest)"
  then show "\<exists>e. process_hci_command pkt self =
              (None, self\<lparr>disconnections := disconnections self @ [e]\<rparr>)
         \<and> disc_handle e =
             (unat (take (unat pl) rest ! 0) + 256 * unat (take (unat pl) rest ! 1)) AND 0x0FFF
         \<and> disc_handle e < 0x1000"
    using disconnect_command[of pkt o1 o2 pl rest self]
    by (auto simp: and_0FFF simp del: length_take nth_take)
next
  show "\<exists>e. process_hci_event
              \<lparr>pkt_timestamp = t, pkt_direction = d, packet_type = 4,
               pkt_data = [0x05, 0x04, 0x00, 0x34, 0x12, 0x13]\<rparr> self =
              (None, self\<lparr>disconnections := disconnections self @ [e]\<rparr>)
         \<and> disc_handle e = 0x0234"
    using disconnection_complete_event[of
        "\<lparr>pkt_timestamp = t, pkt_direction = d, packet_type = 4,
          pkt_data = [0x05, 0x04, 0x00, 0x34, 0x12, 0x13]\<rparr>"
        "0x05" "0x04" "[0x00, 0x34, 0x12, 0x13]" self]
    by (auto simp: and_0FFF)
qed


theorem disconnection_handle_masked_witness:
  "(\<exists>e. process_hci_event
          \<lparr>pkt_timestamp = Datetime 0, pkt_direction = ''received'', packet_type = 4,
           pkt_data = [0x05, 0x04, 0x00, 0x34, 0x12, 0x13]\<rparr> (init ''log'') =
          (None, (init ''log'')\<lparr>disconnections := disconnections (init ''log'') @ [e]\<rparr>)
       \<and> disc_handle e = 0x0234 \<and> disc_handle e < 0x1000)
   \<and> (\<exists>e. process_hci_command
          \<lparr>pkt_timestamp = Datetime 0, pkt_direction = ''sent'', packet_type = 1,
           pkt_data = [0x06, 0x04, 0x03, 0x34, 0x12, 0x13]\<rparr> (init ''log'') =
          (None, (init ''log'')\<lparr>disconnections := disconnections (init ''log'') @ [e]\<rparr>)
       \<and> disc_handle e = 0x0234 \<and> disc_handle e < 0x1000)"
  using disconnection_handle_masked[of
      "\<lparr>pkt_timestamp = Datetime 0, pkt_direction = ''received'', packet_type = 4,
        pkt_data = [0x05, 0x04, 0x00, 0x34, 0x12, 0x13]\<rparr>"
      "0x05" "0x04" "[0x00, 0x34, 0x12, 0x13]" "init ''log''", THEN conjunct1]
    disconnection_handle_masked[of
      "\<lparr>pkt_timestamp = Datetime 0, pkt_direction = ''sent'', packet_type = 1,
        pkt_data = [0x06, 0x04, 0x03, 0x34, 0x12, 0x13]\<rparr>"
      _ "0x03" "[0x34, 0x12, 0x13]" "init ''log''" "0x06" "0x04",
      THEN conjunct2, THEN conjunct1]
  by (simp add: and_0FFF)

text \<open>
  C7, as amended. For a reason byte that the table of disconnect reasons does not hold,
  the description of the event decoded from a disconnection-complete event is
  "Unknown (0xNN)", with one space before the parenthesis and NN the two upper-case
  hexadecimal digits of the byte; the event decoded from a disconnect command carries
  the same text after the prefix "Disconnect Command: ".
\<close>

theorem unknown_reason_rendering:
  "(pkt_data pkt = ec # pl # rest \<and> unat ec = 5 \<and> 4 \<le> length (take (unat pl) rest)
      \<and> DISCONNECT_REASONS (unat (take (unat pl) rest ! 3)) = None \<longrightarrow>
      (\<exists>e. process_hci_event pkt self =
              (None, self\<lparr>disconnections := disconnections self @ [e]\<rparr>)
         \<and> disc_reason_str e =
             ''Unknown (0x'' @ [hex_digit (unat (take (unat pl) rest ! 3) div 16),
                               hex_digit (unat (take (unat pl) rest ! 3) mod 16)] @ '')''))
   \<and> (pkt_data pkt = o1 # o2 # pl # rest \<and> unat o1 + 256 * unat o2 = 0x0406
        \<and> 3 \<le> length (take (unat pl) rest)
        \<and> DISCONNECT_REASONS (unat (take (unat pl) rest ! 2)) = None \<longrightarrow>
      (\<exists>e. process_hci_command pkt self =
              (None, self\<lparr>disconnections := disconnections self @ [e]\<rparr>)
         \<and> disc_reason_str e =
             ''Disconnect Command: Unknown (0x''
               @ [hex_digit (unat (take (unat pl) rest ! 2) div 16),
                  hex_digit (unat (take (unat pl) rest ! 2) mod 16)] @ '')''))"
proof (intro conjI impI)
  assume "pkt_data pkt = ec # pl # rest \<and> unat ec = 5 \<and> 4 \<le> length (take (unat pl) rest)
      \<and> DISCONNECT_REASONS (unat (take (unat pl) rest ! 3)) = None"
  then show "\<exists>e. process_hci_event pkt self =
              (None, self\<lparr>disconnections := disconnections self @ [e]\<rparr>)
         \<and> disc_reason_str e =
             ''Unknown (0x'' @ [hex_digit (unat (take (unat pl) rest ! 3) div 16),
                               hex_digit (unat (take (unat pl) rest ! 3) mod 16)] @ '')''"
    using disconnection_complete_event[of pkt ec pl rest self]
    by (auto simp: dict_get_def fmt_02X_unat simp del: length_take nth_take)
next
  assume "pkt_data pkt = o1 # o2 # pl # rest \<and> unat o1 + 256 * unat o2 = 0x0406
        \<and> 3 \<le> length (take (unat pl) rest)
        \<and> DISCONNECT_REASONS (unat (take (unat pl) rest ! 2)) = None"
  then show "\<exists>e. process_hci_command pkt self =
              (None, self\<lparr>disconnections := disconnections self @ [e]\<rparr>)
         \<and> disc_reason_str e =
             ''Disconnect Command: Unknown (0x''
               @ [hex_digit (unat (take (unat pl) rest ! 2) div 16),
                  hex_digit (unat (take (unat pl) rest ! 2) mod 16)] @ '')''"
    using disconnect_command[of pkt o1 o2 pl rest self]
    by (auto simp: dict_get_def fmt_02X_unat simp del: length_take nth_take)
qed

theorem unknown_reason_rendering_witness:
  "(\<exists>e. process_hci_event
          \<lparr>pkt_timestamp = Datetime 0, pkt_direction = ''received'', packet_type = 4,
           pkt_data = [0x05, 0x04, 0x00, 0x34, 0x12, 0x1F]\<rparr> (init ''log'') =
          (None, (init ''log'')\<lparr>disconnections := disconnections (init ''log'') @ [e]\<rparr>)
       \<and> disc_reason_str e = ''Unknown (0x1F)'')
   \<and> (\<exists>e. process_hci_command
          \<lparr>pkt_timestamp = Datetime 0, pkt_direction = ''sent'', packet_type = 1,
           pkt_data = [0x06, 0x04, 0x03, 0x34, 0x12, 0x1F]\<rparr> (init ''log'') =
          (None, (init ''log'')\<lparr>disconnections := disconnections (init ''log'') @ [e]\<rparr>)
       \<and> disc_reason_str e = ''Disconnect Command: Unknown (0x1F)'')"
  using unknown_reason_rendering[of
      "\<lparr>pkt_timestamp = Datetime 0, pkt_direction = ''received'', packet_type = 4,
        pkt_data = [0x05, 0x04, 0x00, 0x34, 0x12, 0x1F]\<rparr>"
      "0x05" "0x04" "[0x00, 0x34, 0x12, 0x1F]" "init ''log''", THEN conjunct1]
    unknown_reason_rendering[of
      "\<lparr>pkt_timestamp = Datetime 0, pkt_direction = ''sent'', packet_type = 1,
        pkt_data = [0x06, 0x04, 0x03, 0x34, 0x12, 0x1F]\<rparr>"
      _ "0x03" "[0x34, 0x12, 0x1F]" "init ''log''" "0x06" "0x04", THEN conjunct2]
  by (simp add: DISCONNECT_REASONS_def hex_digit_def)

text \<open>
  The description as C7 states it, without the space, is not what the decoder stores:
  for the reason byte 0x1F it stores "Unknown (0x1F)".
\<close>

theorem unknown_reason_no_space_counterexample:
  "DISCONNECT_REASONS (unat (0x1F :: byte)) = None
   \<and> disc_reason_str (last (disconnections (snd (process_hci_event
          \<lparr>pkt_timestamp = Datetime 0, pkt_direction = ''received'', packet_type = 4,
           pkt_data = [0x05, 0x04, 0x00, 0x34, 0x12, 0x1F]\<rparr> (init ''log'')))))
       = ''Unknown (0x1F)''
   \<and> disc_reason_str (last (disconnections (snd (process_hci_event
          \<lparr>pkt_timestamp = Datetime 0, pkt_direction = ''received'', packet_type = 4,
           pkt_data = [0x05, 0x04, 0x00, 0x34, 0x12, 0x1F]\<rparr> (init ''log'')))))
       \<noteq> ''Unknown(0x1F)''"
  using disconnection_complete_event[of
      "\<lparr>pkt_timestamp = Datetime 0, pkt_direction = ''received'', packet_type = 4,
        pkt_data = [0x05, 0x04, 0x00, 0x34, 0x12, 0x1F]\<rparr>"
      "0x05" "0x04" "[0x00, 0x34, 0x12, 0x1F]" "init ''log''"]
  by (simp add: DISCONNECT_REASONS_def dict_get_def fmt_02X_byte hex_digit_def)

section \<open>Hardware addresses\<close>

lemma event_params:
  "pkt_data pkt = ec # pl # rest \<Longrightarrow>
   slice (pkt_data pkt) 2 (Suc (Suc (unat pl))) = take (unat pl) rest
   \<and> byte_at (pkt_data pkt) 0 = Inr (unat ec)
   \<and> byte_at (pkt_data pkt) (Suc 0) = Inr (unat pl)
   \<and> \<not> length (pkt_data pkt) < 2"
  by (simp add: slice_def byte_at_def)

lemma command_params:
  "pkt_data pkt = o1 # o2 # pl # rest \<Longrightarrow>
   slice (pkt_data pkt) 3 (3 + unat pl) = take (unat pl) rest
   \<and> unpack_le_H (slice (pkt_data pkt) 0 2) = Inr (unat o1 + 256 * unat o2)
   \<and> byte_at (pkt_data pkt) 2 = Inr (unat pl)
   \<and> \<not> length (pkt_data pkt) < 3"
  using unpack_le_H_at[of 0 "pkt_data pkt" 2]
  by (simp add: slice_def byte_at_def)























section \<open>Signal strength\<close>

lemma adv_report_loop_rssi:
  "r \<in> set (advertisements (snd (snd (adv_report_loop n off pkt params self)))) \<Longrightarrow>
   r \<notin> set (advertisements self) \<Longrightarrow>
   \<exists>i. i + 9 + unat (params ! (i + 8)) \<le> length params
     \<and> adv_rssi r =
         (if i + 9 + unat (params ! (i + 8)) < length params
          then (if unat (params ! (i + 9 + unat (params ! (i + 8)))) > 127
                then int (unat (params ! (i + 9 + unat (params ! (i + 8))))) - 256
                else int (unat (params ! (i + 9 + unat (params ! (i + 8))))))
          else 0)"
proof (induction n arbitrary: off self)
  case 0
  then show ?case by simp
next
  case (Suc n)
  show ?case
  proof (cases "off + 9 + unat (params ! (off + 8)) \<le> length params")
    case False
    then have "adv_report_body off pkt params self = Inr Break"
      by (intro adv_report_body_break) simp
    with Suc.prems show ?thesis by simp
  next
    case fits: True
    define r0 where "r0 =
         \<lparr>adv_timestamp = pkt_timestamp pkt,
           adv_event_type = unat (params ! off),
           adv_addr_type = dict_get ADDR_TYPES (unat (params ! (off + 1)))
             (''Unknown('' @ str_nat (unat (params ! (off + 1))) @ '')''),
           adv_bd_addr = bd_addr_str (slice params (off + 2) (off + 8)),
           adv_rssi =
             (if off + 9 + unat (params ! (off + 8)) < length params
              then (if unat (params ! (off + 9 + unat (params ! (off + 8)))) > 127
                    then int (unat (params ! (off + 9 + unat (params ! (off + 8))))) - 256
                    else int (unat (params ! (off + 9 + unat (params ! (off + 8))))))
              else 0),
           adv_data = slice params (off + 9) (off + 9 + unat (params ! (off + 8)))\<rparr>"
    define self1 where "self1 = self\<lparr>advertisements := advertisements self @ [r0]\<rparr>"
    define off1 where "off1 = off + 10 + unat (params ! (off + 8))"
    have b: "adv_report_body off pkt params self = Inr (Continue (off1, self1))"
      unfolding off1_def self1_def r0_def by (rule adv_report_body_continue[OF fits])
    have loop: "snd (snd (adv_report_loop (Suc n) off pkt params self)) =
                snd (snd (adv_report_loop n off1 pkt params self1))"
      by (simp add: b Let_def)
    have r0: "adv_rssi r0 =
             (if off + 9 + unat (params ! (off + 8)) < length params
              then (if unat (params ! (off + 9 + unat (params ! (off + 8)))) > 127
                    then int (unat (params ! (off + 9 + unat (params ! (off + 8))))) - 256
                    else int (unat (params ! (off + 9 + unat (params ! (off + 8))))))
              else 0)"
      by (simp add: r0_def)
    show ?thesis
    proof (cases "r \<in> set (advertisements self1)")
      case True
      with Suc.prems(2) have "r = r0" by (simp add: self1_def)
      with r0 fits show ?thesis
        by (intro exI[of _ off]) (simp only: simp_thms)
    next
      case False
      from Suc.prems(1)
      have "r \<in> set (advertisements (snd (snd (adv_report_loop n off1 pkt params self1))))"
        by (simp only: loop)
      from Suc.IH[OF this False] show ?thesis .
    qed
  qed
qed

lemma rssi_of_body:
  "off + 9 + unat (params ! (off + 8)) \<le> length params \<longrightarrow>
     (\<exists>off' r. adv_report_body off pkt params self =
          Inr (Continue (off', self\<lparr>advertisements := advertisements self @ [r]\<rparr>))
        \<and> adv_rssi r =
           (if off + 9 + unat (params ! (off + 8)) < length params
            then (if unat (params ! (off + 9 + unat (params ! (off + 8)))) > 127
                  then int (unat (params ! (off + 9 + unat (params ! (off + 8))))) - 256
                  else int (unat (params ! (off + 9 + unat (params ! (off + 8))))))
            else 0))"
proof
  assume fits: "off + 9 + unat (params ! (off + 8)) \<le> length params"
  show "\<exists>off' r. adv_report_body off pkt params self =
          Inr (Continue (off', self\<lparr>advertisements := advertisements self @ [r]\<rparr>))
        \<and> adv_rssi r =
           (if off + 9 + unat (params ! (off + 8)) < length params
            then (if unat (params ! (off + 9 + unat (params ! (off + 8)))) > 127
                  then int (unat (params ! (off + 9 + unat (params ! (off + 8))))) - 256
                  else int (unat (params ! (off + 9 + unat (params ! (off + 8))))))
            else 0)"
    by (intro exI conjI, rule adv_report_body_continue[OF fits]) simp
qed

lemma rssi_of_reports:
  "2 \<le> length params \<and> unat (params ! 0) = 2 \<longrightarrow>
     (\<forall>r \<in> set (advertisements (snd (process_le_meta_event pkt params self)))
            - set (advertisements self).
        \<exists>i. i + 9 + unat (params ! (i + 8)) \<le> length params
          \<and> adv_rssi r =
             (if i + 9 + unat (params ! (i + 8)) < length params
              then (if unat (params ! (i + 9 + unat (params ! (i + 8)))) > 127
                    then int (unat (params ! (i + 9 + unat (params ! (i + 8))))) - 256
                    else int (unat (params ! (i + 9 + unat (params ! (i + 8))))))
              else 0))"
proof (intro impI ballI, elim conjE)
  fix r
  assume a: "2 \<le> length params" "unat (params ! 0) = 2"
    and r: "r \<in> set (advertisements (snd (process_le_meta_event pkt params self)))
            - set (advertisements self)"
  from r have "r \<in> set (advertisements
      (snd (snd (adv_report_loop (unat (params ! 1)) 2 pkt params self))))"
    and "r \<notin> set (advertisements self)"
    by (simp_all add: adv_report_decoder_walk[OF a])
  from adv_report_loop_rssi[OF this]
  show "\<exists>i. i + 9 + unat (params ! (i + 8)) \<le> length params
          \<and> adv_rssi r =
             (if i + 9 + unat (params ! (i + 8)) < length params
              then (if unat (params ! (i + 9 + unat (params ! (i + 8)))) > 127
                    then int (unat (params ! (i + 9 + unat (params ! (i + 8))))) - 256
                    else int (unat (params ! (i + 9 + unat (params ! (i + 8))))))
              else 0)" .
qed

lemma rssi_examples:
  "(\<exists>r. process_le_meta_event pkt [0x02, 0x01, et, aty, a0, a1, a2, a3, a4, a5, 0x00, 0xFF] self
         = (None, self\<lparr>advertisements := advertisements self @ [r]\<rparr>) \<and> adv_rssi r = - 1)
   \<and> (\<exists>r. process_le_meta_event pkt [0x02, 0x01, et, aty, a0, a1, a2, a3, a4, a5, 0x00, 0x40] self
         = (None, self\<lparr>advertisements := advertisements self @ [r]\<rparr>) \<and> adv_rssi r = 64)
   \<and> (\<exists>r. process_le_meta_event pkt [0x02, 0x01, et, aty, a0, a1, a2, a3, a4, a5, 0x00] self
         = (None, self\<lparr>advertisements := advertisements self @ [r]\<rparr>) \<and> adv_rssi r = 0)"
  by (auto simp: process_le_meta_event_def evaluating_def byte_at_def Let_def
      adv_report_body_def bind_def)

text \<open>
  C8. The RSSI of a report is the signed reading of its RSSI byte: a byte value \<open>v\<close> gives
  \<open>v - 256\<close> when \<open>v > 127\<close> and \<open>v\<close> otherwise; when the report's prefix and data end
  at or beyond the last byte of the buffer, so that there is no RSSI byte, the RSSI is 0.
  This holds for one run of the walk's body at any offset and for every report the
  decoder adds; the bytes 0xFF and 0x40 give -1 and 64, and a missing byte gives 0.
\<close>

theorem rssi_signed_byte:
  "(off + 9 + unat (params ! (off + 8)) \<le> length params \<longrightarrow>
     (\<exists>off' r. adv_report_body off pkt params self =
          Inr (Continue (off', self\<lparr>advertisements := advertisements self @ [r]\<rparr>))
        \<and> adv_rssi r =
           (if off + 9 + unat (params ! (off + 8)) < length params
            then (if unat (params ! (off + 9 + unat (params ! (off + 8)))) > 127
                  then int (unat (params ! (off + 9 + unat (params ! (off + 8))))) - 256
                  else int (unat (params ! (off + 9 + unat (params ! (off + 8))))))
            else 0)))
   \<and> (2 \<le> length params \<and> unat (params ! 0) = 2 \<longrightarrow>
     (\<forall>r \<in> set (advertisements (snd (process_le_meta_event pkt params self)))
            - set (advertisements self).
        \<exists>i. i + 9 + unat (params ! (i + 8)) \<le> length params
          \<and> adv_rssi r =
             (if i + 9 + unat (params ! (i + 8)) < length params
              then (if unat (params ! (i + 9 + unat (params ! (i + 8)))) > 127
                    then int (unat (params ! (i + 9 + unat (params ! (i + 8))))) - 256
                    else int (unat (params ! (i + 9 + unat (params ! (i + 8))))))
              else 0)))
   \<and> ((\<exists>r. process_le_meta_event pkt [0x02, 0x01, et, aty, a0, a1, a2, a3, a4, a5, 0x00, 0xFF] self
         = (None, self\<lparr>advertisements := advertisements self @ [r]\<rparr>) \<and> adv_rssi r = - 1)
   \<and> (\<exists>r. process_le_meta_event pkt [0x02, 0x01, et, aty, a0, a1, a2, a3, a4, a5, 0x00, 0x40] self
         = (None, self\<lparr>advertisements := advertisements self @ [r]\<rparr>) \<and> adv_rssi r = 64)
   \<and> (\<exists>r. process_le_meta_event pkt [0x02, 0x01, et, aty, a0, a1, a2, a3, a4, a5, 0x00] self
         = (None, self\<lparr>advertisements := advertisements self @ [r]\<rparr>) \<and> adv_rssi r = 0))"
  by (intro conjI rssi_of_body rssi_of_reports rssi_examples)

theorem rssi_signed_byte_witness:
  "(\<exists>off' r. adv_report_body 2
        \<lparr>pkt_timestamp = Datetime 0, pkt_direction = ''received'', packet_type = 4,
         pkt_data = []\<rparr>
        [0x02, 0x01, 0x00, 0x01, 1, 2, 3, 4, 5, 6, 0x00, 0xC5] (init ''log'') =
          Inr (Continue (off', (init ''log'')\<lparr>advertisements :=
                 advertisements (init ''log'') @ [r]\<rparr>))
      \<and> adv_rssi r = - 59)
   \<and> (\<exists>off' r. adv_report_body 2
        \<lparr>pkt_timestamp = Datetime 0, pkt_direction = ''received'', packet_type = 4,
         pkt_data = []\<rparr>
        [0x02, 0x01, 0x00, 0x01, 1, 2, 3, 4, 5, 6, 0x00] (init ''log'') =
          Inr (Continue (off', (init ''log'')\<lparr>advertisements :=
                 advertisements (init ''log'') @ [r]\<rparr>))
      \<and> adv_rssi r = 0)"
  using rssi_signed_byte[where off = 2
      and pkt = "\<lparr>pkt_timestamp = Datetime 0, pkt_direction = ''received'', packet_type = 4,
         pkt_data = []\<rparr>"
      and params = "[0x02, 0x01, 0x00, 0x01, 1, 2, 3, 4, 5, 6, 0x00, 0xC5]"
      and self = "init ''log''", THEN conjunct1]
    rssi_signed_byte[where off = 2
      and pkt = "\<lparr>pkt_timestamp = Datetime 0, pkt_direction = ''received'', packet_type = 4,
         pkt_data = []\<rparr>"
      and params = "[0x02, 0x01, 0x00, 0x01, 1, 2, 3, 4, 5, 6, 0x00]"
      and self = "init ''log''", THEN conjunct1]
  by simp

section \<open>No decoder raises\<close>

lemma unpack_le_H_ex:
  "a + 2 \<le> length bs \<Longrightarrow> b = a + 2 \<Longrightarrow> \<exists>v. unpack_le_H (slice bs a b) = Inr v"
  by (intro exI, rule unpack_le_H_at) simp_all

lemma process_hci_event_ok: "fst (process_hci_event pkt self) = None"
proof (cases "length (pkt_data pkt) < 2")
  case True
  then show ?thesis by (simp add: process_hci_event_def)
next
  case False
  then obtain ec pl rest where d: "pkt_data pkt = ec # pl # rest"
    by (cases "pkt_data pkt"; cases "tl (pkt_data pkt)") auto
  define P where "P = take (unat pl) rest"
  note ep = event_params[OF d, folded P_def]
  show ?thesis
  proof (cases "4 \<le> length P")
    case True
    have "\<exists>v. unpack_le_H (slice P (Suc 0) 3) = Inr v"
      by (rule unpack_le_H_ex) (use True in simp_all)
    then obtain v where v: "unpack_le_H (slice P (Suc 0) 3) = Inr v" by blast
    show ?thesis
      by (simp add: process_hci_event_def evaluating_def ep v Let_def
          process_le_meta_event_ok) (auto simp: byte_at_def v)
  next
    case False
    then show ?thesis
      by (simp add: process_hci_event_def evaluating_def ep Let_def
          process_le_meta_event_ok)
  qed
qed

lemma process_hci_command_ok: "fst (process_hci_command pkt self) = None"
proof (cases "length (pkt_data pkt) < 3")
  case True
  then show ?thesis by (simp add: process_hci_command_def)
next
  case False
  then obtain o1 o2 pl rest where d: "pkt_data pkt = o1 # o2 # pl # rest"
    by (cases "pkt_data pkt"; cases "tl (pkt_data pkt)"; cases "tl (tl (pkt_data pkt))") auto
  define P where "P = take (unat pl) rest"
  note cp = command_params[OF d, folded P_def]
  show ?thesis
  proof (cases "3 \<le> length P")
    case True
    have "\<exists>v. unpack_le_H (slice P 0 2) = Inr v"
      by (rule unpack_le_H_ex) (use True in simp_all)
    then obtain v where v: "unpack_le_H (slice P 0 2) = Inr v" by blast
    show ?thesis
      by (simp add: process_hci_command_def evaluating_def cp v Let_def)
        (auto simp: byte_at_def v)
  next
    case False
    then show ?thesis
      by (simp add: process_hci_command_def evaluating_def cp Let_def)
  qed
qed

lemma process_att_ok: "fst (process_att pkt att_data self) = None"
proof (cases "3 \<le> length att_data")
  case True
  have "\<exists>v. unpack_le_H (slice att_data (Suc 0) 3) = Inr v"
    by (rule unpack_le_H_ex) (use True in simp_all)
  then obtain v where v: "unpack_le_H (slice att_data (Suc 0) 3) = Inr v" by blast
  show ?thesis
    by (auto simp: process_att_def evaluating_def byte_at_in v split: option.splits)
next
  case False
  then show ?thesis
    by (auto simp: process_att_def evaluating_def byte_at_in split: option.splits)
qed

lemma process_acl_data_ok: "fst (process_acl_data pkt self) = None"
proof (cases "length (pkt_data pkt) < 4")
  case True
  then show ?thesis by (simp add: process_acl_data_def)
next
  case False
  have "\<exists>v. unpack_le_H (slice (pkt_data pkt) 2 4) = Inr v"
    by (rule unpack_le_H_ex) (use False in simp_all)
  then obtain acl_len where a: "unpack_le_H (slice (pkt_data pkt) 2 4) = Inr acl_len"
    by blast
  define acl_data where "acl_data = slice (pkt_data pkt) 4 (4 + acl_len)"
  show ?thesis
  proof (cases "length acl_data < 4")
    case True
    with False show ?thesis
      by (simp add: process_acl_data_def evaluating_def a acl_data_def[symmetric])
  next
    case long: False
    have "\<exists>v. unpack_le_H (slice acl_data 0 2) = Inr v"
      by (rule unpack_le_H_ex) (use long in simp_all)
    then obtain l2cap_len where l: "unpack_le_H (slice acl_data 0 2) = Inr l2cap_len"
      by blast
    have "\<exists>v. unpack_le_H (slice acl_data 2 4) = Inr v"
      by (rule unpack_le_H_ex) (use long in simp_all)
    then obtain cid where c: "unpack_le_H (slice acl_data 2 4) = Inr cid"
      by blast
    from False long show ?thesis
      by (simp add: process_acl_data_def evaluating_def a acl_data_def[symmetric] l c
          process_att_ok Let_def)
  qed
qed

lemma process_packet_ok: "fst (process_packet pkt self) = None"
  by (simp add: process_packet_def process_hci_event_ok process_hci_command_ok
      process_acl_data_ok)

lemma unpack_be_IIIIQ_24:
  "length h = 24 \<Longrightarrow> \<exists>a b c d e. unpack_be_IIIIQ h = Inr (a, b, c, d, e)"
  by (simp add: unpack_be_IIIIQ_def)

lemma process_packet_case:
  "(case process_packet pkt s of (None, s2) \<Rightarrow> B s2 | (Some e, s2) \<Rightarrow> A e s2)
   = B (snd (process_packet pkt s))"
  using process_packet_ok[of pkt s] by (cases "process_packet pkt s") auto

lemma parse_records_ok: "fst (parse_records clk k f self) = None"
proof (induction "length f" arbitrary: k f self rule: less_induct)
  case less
  show ?case
  proof (cases "length f < 24")
    case True
    then show ?thesis by (subst parse_records.simps) (simp add: Let_def)
  next
    case False
    then have "length (take 24 f) = 24" by simp
    then obtain a b c d e where u: "unpack_be_IIIIQ (take 24 f) = Inr (a, b, c, d, e)"
      using unpack_be_IIIIQ_24 by blast
    have rec: "\<And>k' n s. 24 \<le> n \<Longrightarrow> fst (parse_records clk k' (drop n f) s) = None"
      using False by (intro less) simp
    obtain t k' where tk:
      "(case datetime_add_us BTSNOOP_EPOCH e of Inr t \<Rightarrow> (t, k) | Inl e \<Rightarrow> (clk k, Suc k)) = (t, k')"
      by (meson surj_pair)
    define pd where "pd = take b (drop 24 f)"
    show ?thesis
    proof (cases "length pd < b")
      case True
      then have "length f - 24 < b" by (simp add: pd_def)
      with False show ?thesis
        by (subst parse_records.simps) (simp add: Let_def u)
    next
      case full: False
      show ?thesis
      proof (cases "pd = []")
        case True
        with full False show ?thesis
          by (subst parse_records.simps) (simp add: Let_def u tk rec pd_def[symmetric])
      next
        case ne: False
        have b0: "byte_at pd 0 = Inr (unat (pd ! 0))"
          using ne by (simp add: byte_at_def)
        from full False ne show ?thesis
          by (subst parse_records.simps)
            (simp add: Let_def u tk rec pd_def[symmetric] b0 process_packet_case)
      qed
    qed
  qed
qed

section \<open>The file header\<close>

lemma parse_valid:
  assumes "16 \<le> length file" and "take 8 file = BTSNOOP_MAGIC"
  shows "parse clk file self =
    \<lparr>raised = None,
     printed = (if be_nat (slice file 8 12) \<noteq> 1
                then [Unexpected_version (be_nat (slice file 8 12))] else [])
             @ (if be_nat (slice file 12 16) \<noteq> 1002
                then [Unexpected_datalink (be_nat (slice file 12 16))] else []),
     parser = snd (parse_records clk 0 (drop 16 file) self)\<rparr>"
proof -
  have m: "slice (take 16 file) 0 8 = BTSNOOP_MAGIC"
    using assms by (simp add: slice_def min_def)
  have s1: "slice (slice (take 16 file) 8 16) 0 4 = slice file 8 12"
    using assms(1) by (simp add: slice_def take_drop min_def)
  have s2: "slice (slice (take 16 file) 8 16) 4 8 = slice file 12 16"
    using assms(1) by (simp add: slice_def take_drop min_def add.commute)
  have u: "unpack_be_II (slice (take 16 file) 8 16)
             = Inr (be_nat (slice file 8 12), be_nat (slice file 12 16))"
    using assms(1) by (simp add: unpack_be_II_def s1 s2) (simp add: slice_def)
  obtain s where p: "parse_records clk 0 (drop 16 file) self = (None, s)"
    using parse_records_ok[of clk 0 "drop 16 file" self]
    by (cases "parse_records clk 0 (drop 16 file) self") simp
  show ?thesis
    using assms(1) by (simp add: parse_def Let_def m u p)
qed

lemma parse_too_small:
  "length file < 16 \<Longrightarrow>
   parse clk file self = \<lparr>raised = Some (ValueError File_too_small), printed = [], parser = self\<rparr>"
  by (simp add: parse_def Let_def)

lemma parse_bad_magic:
  assumes "16 \<le> length file" and "take 8 file \<noteq> BTSNOOP_MAGIC"
  shows "parse clk file self =
    \<lparr>raised = Some (ValueError (Invalid_magic (take 8 file))), printed = [], parser = self\<rparr>"
proof -
  have m: "slice (take 16 file) 0 8 = take 8 file"
    using assms by (simp add: slice_def min_def)
  show ?thesis
    using assms by (simp add: parse_def Let_def m)
qed

lemma parse_raised:
  "raised (parse clk file self) =
     (if length file < 16 then Some (ValueError File_too_small)
      else if take 8 file \<noteq> BTSNOOP_MAGIC
           then Some (ValueError (Invalid_magic (take 8 file)))
      else None)"
  using parse_valid[of "file" clk self] parse_too_small[of "file" clk self]
    parse_bad_magic[of "file" clk self]
  by (cases "length file < 16"; cases "take 8 file = BTSNOOP_MAGIC") simp_all

lemma magic_prefix:
  "16 \<le> length (BTSNOOP_MAGIC @ [v1, v2, v3, v4, d1, d2, d3, d4] @ rest)
   \<and> take 8 (BTSNOOP_MAGIC @ [v1, v2, v3, v4, d1, d2, d3, d4] @ rest) = BTSNOOP_MAGIC"
  by (simp add: BTSNOOP_MAGIC_def)

text \<open>
  C5. \<open>parse\<close> raises the ValueError of the header check exactly when the file holds
  fewer than 16 bytes (``file too small'') or its first 8 bytes differ from the magic
  constant (``invalid magic'', carrying those bytes); otherwise it raises nothing at all.
  In particular a file that starts with the magic constant followed by any eight bytes
  of version and datalink type raises nothing, whatever those eight bytes are: they only
  decide which warnings are printed.
\<close>

theorem format_error_iff_header_short_or_bad_magic:
  "raised (parse clk file self) =
     (if length file < 16 then Some (ValueError File_too_small)
      else if take 8 file \<noteq> BTSNOOP_MAGIC
           then Some (ValueError (Invalid_magic (take 8 file)))
      else None)
   \<and> ((\<exists>v. raised (parse clk file self) = Some (ValueError v))
        = (length file < 16 \<or> take 8 file \<noteq> BTSNOOP_MAGIC))
   \<and> raised (parse clk (BTSNOOP_MAGIC @ [v1, v2, v3, v4, d1, d2, d3, d4] @ rest) self) = None
   \<and> printed (parse clk (BTSNOOP_MAGIC @ [v1, v2, v3, v4, d1, d2, d3, d4] @ rest) self) =
       (if be_nat [v1, v2, v3, v4] \<noteq> 1 then [Unexpected_version (be_nat [v1, v2, v3, v4])]
        else [])
       @ (if be_nat [d1, d2, d3, d4] \<noteq> 1002
          then [Unexpected_datalink (be_nat [d1, d2, d3, d4])] else [])"
proof -
  let ?f = "BTSNOOP_MAGIC @ [v1, v2, v3, v4, d1, d2, d3, d4] @ rest"
  have a: "raised (parse clk file self) =
     (if length file < 16 then Some (ValueError File_too_small)
      else if take 8 file \<noteq> BTSNOOP_MAGIC
           then Some (ValueError (Invalid_magic (take 8 file)))
      else None)"
    by (rule parse_raised)
  have b: "(\<exists>v. raised (parse clk file self) = Some (ValueError v))
        = (length file < 16 \<or> take 8 file \<noteq> BTSNOOP_MAGIC)"
    by (simp add: a)
  have sv: "slice ?f 8 12 = [v1, v2, v3, v4]" and sd: "slice ?f 12 16 = [d1, d2, d3, d4]"
    by (simp_all add: slice_def BTSNOOP_MAGIC_def)
  have c: "parse clk ?f self =
    \<lparr>raised = None,
     printed = (if be_nat [v1, v2, v3, v4] \<noteq> 1
                then [Unexpected_version (be_nat [v1, v2, v3, v4])] else [])
             @ (if be_nat [d1, d2, d3, d4] \<noteq> 1002
                then [Unexpected_datalink (be_nat [d1, d2, d3, d4])] else []),
     parser = snd (parse_records clk 0 (drop 16 ?f) self)\<rparr>"
    using parse_valid[OF magic_prefix[THEN conjunct1] magic_prefix[THEN conjunct2],
        of clk v1 v2 v3 v4 d1 d2 d3 d4 rest self]
    unfolding sv sd .
  show ?thesis
    using a b by (simp only: c run.simps simp_thms)
qed

theorem format_error_iff_header_short_or_bad_magic_witness:
  "raised (parse (\<lambda>_. Datetime 0) [0x62, 0x74, 0x73] (init ''a.log''))
     = Some (ValueError File_too_small)
   \<and> raised (parse (\<lambda>_. Datetime 0)
        [0x62, 0x74, 0x73, 0x6E, 0x6F, 0x6F, 0x70, 0x01, 0, 0, 0, 1, 0, 0, 3, 0xEA]
        (init ''a.log''))
     = Some (ValueError (Invalid_magic [0x62, 0x74, 0x73, 0x6E, 0x6F, 0x6F, 0x70, 0x01]))
   \<and> raised (parse (\<lambda>_. Datetime 0)
        (BTSNOOP_MAGIC @ [0, 0, 0, 9, 0xFF, 0xFF, 0xFF, 0xFF] @ []) (init ''a.log'')) = None
   \<and> printed (parse (\<lambda>_. Datetime 0)
        (BTSNOOP_MAGIC @ [0, 0, 0, 9, 0xFF, 0xFF, 0xFF, 0xFF] @ []) (init ''a.log''))
     = [Unexpected_version 9, Unexpected_datalink 4294967295]"
  using format_error_iff_header_short_or_bad_magic
          [of "\<lambda>_. Datetime 0" "[0x62, 0x74, 0x73]" "init ''a.log''" 0 0 0 9 255 255 255 255 "[]"]
        format_error_iff_header_short_or_bad_magic
          [of "\<lambda>_. Datetime 0"
              "[0x62, 0x74, 0x73, 0x6E, 0x6F, 0x6F, 0x70, 0x01, 0, 0, 0, 1, 0, 0, 3, 0xEA]"
              "init ''a.log''" 0 0 0 9 255 255 255 255 "[]"]
  by (simp add: BTSNOOP_MAGIC_def be_nat_def)

text \<open>
  C10. The header check comes before any change of the parser object: when the file is
  shorter than 16 bytes or its magic bytes mismatch, \<open>parse\<close> raises the ValueError,
  prints nothing and leaves the parser object as it was; on a freshly constructed parser
  on which \<open>parse\<close> raises the ValueError, the packet list and the four event
  collections are still empty.
\<close>

theorem header_validation_atomic:
  "((length file < 16 \<or> take 8 file \<noteq> BTSNOOP_MAGIC) \<longrightarrow>
      (\<exists>v. raised (parse clk file self) = Some (ValueError v))
      \<and> parser (parse clk file self) = self
      \<and> printed (parse clk file self) = [])
   \<and> (raised (parse clk file (init path)) = Some (ValueError v) \<longrightarrow>
      parser (parse clk file (init path)) = init path
      \<and> packets (parser (parse clk file (init path))) = []
      \<and> connections (parser (parse clk file (init path))) = []
      \<and> disconnections (parser (parse clk file (init path))) = []
      \<and> advertisements (parser (parse clk file (init path))) = []
      \<and> gatt_operations (parser (parse clk file (init path))) = [])"
proof -
  have a: "(length file < 16 \<or> take 8 file \<noteq> BTSNOOP_MAGIC) \<longrightarrow>
      (\<exists>v. raised (parse clk file self) = Some (ValueError v))
      \<and> parser (parse clk file self) = self
      \<and> printed (parse clk file self) = []"
    using parse_too_small[of "file" clk self] parse_bad_magic[of "file" clk self]
    by (cases "length file < 16") auto
  have b: "parser (parse clk file (init path)) = init path"
    if "raised (parse clk file (init path)) = Some (ValueError v)"
  proof -
    from that have "length file < 16 \<or> take 8 file \<noteq> BTSNOOP_MAGIC"
      by (simp add: parse_raised split: if_splits)
    then show ?thesis
      using parse_too_small[of "file" clk "init path"] parse_bad_magic[of "file" clk "init path"]
      by (cases "length file < 16") auto
  qed
  show ?thesis
    using a b by (auto simp: init_def)
qed

theorem header_validation_atomic_witness:
  "raised (parse (\<lambda>_. Datetime 0) [0x62, 0x74, 0x73] (init ''a.log''))
     = Some (ValueError File_too_small)
   \<and> parser (parse (\<lambda>_. Datetime 0) [0x62, 0x74, 0x73] (init ''a.log'')) = init ''a.log''
   \<and> packets (parser (parse (\<lambda>_. Datetime 0) [0x62, 0x74, 0x73] (init ''a.log''))) = []
   \<and> connections (parser (parse (\<lambda>_. Datetime 0) [0x62, 0x74, 0x73] (init ''a.log''))) = []
   \<and> disconnections (parser (parse (\<lambda>_. Datetime 0) [0x62, 0x74, 0x73] (init ''a.log''))) = []
   \<and> advertisements (parser (parse (\<lambda>_. Datetime 0) [0x62, 0x74, 0x73] (init ''a.log''))) = []
   \<and> gatt_operations (parser (parse (\<lambda>_. Datetime 0) [0x62, 0x74, 0x73] (init ''a.log''))) = []"
  using header_validation_atomic
          [of "[0x62, 0x74, 0x73]" "\<lambda>_. Datetime 0" "init ''a.log''" "''a.log''" File_too_small]
  by (simp add: parse_def Let_def)

end
